theory Spec2Isabelle
  imports Main "HOL-Library.Sublist"
begin

section \<open>The Conda step decorators of conda\_step\_decorator.py\<close>

text \<open>
  The file holds four classes: \<open>PackageRequirementStepDecorator\<close> with its two
  subclasses for \<open>@conda\<close> and \<open>@pypi\<close>, and \<open>CondaEnvInternalDecorator\<close>, whose
  lifecycle hooks prepare the environment a step runs in. The hooks are modelled by
  explicit state passing: a hook takes the state it can touch (the decorator object,
  the process environment, the file system, the logs of the calls it makes) and gives
  back either the state after a normal return or the exception raised together with
  the state as it was at the \<open>raise\<close> (Python keeps every mutation made before it).
  An argument that a hook never reads (the flow, the graph, the package and so on) is
  left out of its model; the objects \<open>step_init\<close> only stores for later (the logger,
  the environment, the flow and its datastore) are reached through the \<open>host\<close>
  parameter.
\<close>

subsection \<open>Strings and paths\<close>

text \<open>\<open>sep.join(items)\<close>.\<close>

fun str_join :: "string \<Rightarrow> string list \<Rightarrow> string" where
  "str_join sep [] = []"
| "str_join sep [x] = x"
| "str_join sep (x # y # ys) = x @ sep @ str_join sep (y # ys)"

text \<open>\<open>s.split(c)\<close> for a one-character separator: \<open>''''.split(c)\<close> is \<open>['''']\<close>.\<close>

fun str_split :: "char \<Rightarrow> string \<Rightarrow> string list" where
  "str_split c [] = [[]]"
| "str_split c (x # xs) =
     (if x = c then [] # str_split c xs
      else (case str_split c xs of
              [] \<Rightarrow> [[x]]
            | w # ws \<Rightarrow> (x # w) # ws))"

text \<open>\<open>s.upper()\<close> and \<open>s.replace(a, b)\<close> on one-byte characters.\<close>

definition upper_char :: "char \<Rightarrow> char" where
  "upper_char c =
     (let n = (of_char c :: nat)
      in if 97 \<le> n \<and> n \<le> 122 then char_of (n - 32) else c)"

definition str_upper :: "string \<Rightarrow> string" where
  "str_upper s = map upper_char s"

definition str_replace_char :: "char \<Rightarrow> char \<Rightarrow> string \<Rightarrow> string" where
  "str_replace_char a b s = map (\<lambda>c. if c = a then b else c) s"

text \<open>\<open>str(n)\<close> for an integer, as \<open>''{0}''.format(n)\<close> prints it.\<close>

definition digit_char :: "nat \<Rightarrow> char" where
  "digit_char d = ''0123456789'' ! d"

function str_nat :: "nat \<Rightarrow> string" where
  "str_nat n = (if n < 10 then [digit_char n] else str_nat (n div 10) @ [digit_char (n mod 10)])"
  by pat_completeness auto
termination
  by (relation "measure id") auto

declare str_nat.simps [simp del]

definition str_int :: "int \<Rightarrow> string" where
  "str_int i = (if i < 0 then ''-'' @ str_nat (nat (- i)) else str_nat (nat i))"

text \<open>\<open>s.startswith(p)\<close>.\<close>

definition startswith :: "string \<Rightarrow> string \<Rightarrow> bool" where
  "startswith s p = (take (length p) s = p)"

text \<open>
  \<open>os.path.join\<close> of \<open>posixpath\<close>: a component that starts with the separator
  replaces what came before; otherwise it is appended, with a separator unless the
  path so far is empty or already ends in one.
\<close>

definition join_step :: "string \<Rightarrow> string \<Rightarrow> string" where
  "join_step path b =
     (if startswith b ''/'' then b
      else if path = [] \<or> last path = CHR ''/'' then path @ b
      else path @ ''/'' @ b)"

definition os_path_join :: "string \<Rightarrow> string list \<Rightarrow> string" where
  "os_path_join a ps = foldl join_step a ps"

text \<open>
  \<open>os.path.dirname\<close> of \<open>posixpath\<close>: the part up to the last separator, with
  trailing separators stripped unless it consists of separators only.
\<close>

definition os_path_dirname :: "string \<Rightarrow> string" where
  "os_path_dirname p =
     (let head = rev (dropWhile (\<lambda>c. c \<noteq> CHR ''/'') (rev p))
      in if head \<noteq> [] \<and> \<not> list_all (\<lambda>c. c = CHR ''/'') head
         then rev (dropWhile (\<lambda>c. c = CHR ''/'') (rev head))
         else head)"

definition os_pathsep :: string where
  "os_pathsep = '':''"

subsection \<open>Exceptions and outcomes\<close>

datatype exn =
    InvalidEnvironmentException string
  | AssertionError
  | AttributeError string
  | KeyError string
  | IndexError
  | ValueError
  | FileExistsError string
  | FileNotFoundError string
  | NotADirectoryError string
  | OSError string

text \<open>
  The outcome of a call over a state \<open>'s\<close>: \<open>Inr s\<close> when it returns with state
  \<open>s\<close>; \<open>Inl (e, s)\<close> when it raises \<open>e\<close>, \<open>s\<close> being the state at the raise.
\<close>

type_synonym 's outcome = "(exn \<times> 's) + 's"

definition and_then :: "'s outcome \<Rightarrow> ('s \<Rightarrow> 's outcome) \<Rightarrow> 's outcome" where
  "and_then m f = (case m of Inl e \<Rightarrow> Inl e | Inr s \<Rightarrow> f s)"

subsection \<open>Data of the host framework and of the collaborators\<close>

text \<open>
  \<open>UBF_CONTROL\<close>, \<open>UBF_TASK\<close> (metaflow.unbounded\_foreach) and \<open>EXT_PKG\<close>
  (metaflow.extension\_support) are constants of the host framework.
\<close>

definition UBF_CONTROL :: string where
  "UBF_CONTROL = ''ubf_control''"

definition UBF_TASK :: string where
  "UBF_TASK = ''ubf_task''"

definition EXT_PKG :: string where
  "EXT_PKG = ''metaflow_extensions''"

text \<open>
  \<open>EnvID\<close> is declared in env\_descr.py; the record has the two fields this file
  reads.
\<close>

record EnvID =
  req_id :: string
  full_id :: string

text \<open>\<open>get_env_id_noconda\<close> returns an \<open>EnvID\<close> or something else, a string.\<close>

datatype env_id_or_str = IsEnvID EnvID | IsStr string

text \<open>A resolved environment, as \<open>conda.environment\<close> hands it out: an opaque handle.\<close>

datatype resolved_env = ResolvedEnvironment string

text \<open>
  A value of the dictionary \<open>self._env_for_fetch\<close>: a string, or the closure built in
  \<open>runtime_task_created\<close>, which holds the parameter's name and the parent task
  datastore (named by run id, step name and task id) it will load the value from.
\<close>

datatype fetch_value =
    FetchStr string
  | FetchParam string "string \<times> string \<times> string"

datatype MetaDatum =
  MetaDatum (md_field: string) (md_value: string) (md_type: string) (md_tags: "string list")

text \<open>Nodes of the file system, which is a map from absolute paths to nodes.\<close>

datatype node = Dir | Symlink string | File string

text \<open>
  What the hooks ask of code that is not in this file is a parameter of the model:
  the \<open>CondaEnvironment\<close> and \<open>Conda\<close> collaborators, the host's configuration and
  flow object, the interpreter and the library calls whose result depends on the
  machine.
\<close>

record host =
  enabled_for_step :: "string \<Rightarrow> bool"
  get_env_id_noconda :: "string \<Rightarrow> env_id_or_str"
  resolve_fetch_at_exec_env :: "string \<Rightarrow> (string \<rightharpoonup> fetch_value) \<Rightarrow> EnvID option"
  get_environment_info_json :: string
  created_environment :: "EnvID \<Rightarrow> (string \<times> string) option"
  conda_environment :: "EnvID \<Rightarrow> resolved_env option"
  create_for_step :: "string \<Rightarrow> resolved_env \<Rightarrow> string"
  arch_id :: string
  CONDA_REMOTE_COMMANDS :: "string list"
  get_metaflow_root :: string
  import_EXT_PKG :: "string list option"
  trampoline_modules :: "(string \<times> string) list"
  get_parameters :: "string list"
  json_dumps :: "EnvID option \<Rightarrow> string"
  realpath_sys_executable :: string
  mkdtemp_names :: "nat \<Rightarrow> string"

text \<open>
  The state: the attributes of the \<open>CondaEnvInternalDecorator\<close> object set by
  \<open>step_init\<close> and \<open>runtime_init\<close> (\<open>metaflow_home\<close> is \<open>None\<close> while the
  attribute \<open>_metaflow_home\<close> does not exist yet), \<open>os.environ\<close>, the file system,
  the position in the sequence of temporary names, and the calls made so far to the
  logger, to \<open>conda.create_for_step\<close> and to \<open>metadata.register_metadata\<close>.
\<close>

record state =
  step_name :: string
  env_for_fetch :: "string \<rightharpoonup> fetch_value"
  env_id :: "EnvID option"
  is_remote :: bool
  metaflow_home :: "string option"
  addl_paths :: "string list option"
  os_environ :: "string \<rightharpoonup> string"
  fs :: "string \<rightharpoonup> node"
  tmp_seq :: nat
  echo_log :: "string list"
  created_envs :: "(string \<times> resolved_env) list"
  registered :: "(string \<times> string \<times> string \<times> MetaDatum list) list"

text \<open>The \<open>cli_args\<close> object of the host: the command line and the child's environment.\<close>

record cli_args =
  entrypoint :: "string list"
  env :: "string \<rightharpoonup> string"

subsection \<open>PackageRequirementStepDecorator\<close>

definition PackageRequirementStepDecorator_name :: string where
  "PackageRequirementStepDecorator_name = ''step_package_req''"

definition CondaRequirementStepDecorator_name :: string where
  "CondaRequirementStepDecorator_name = ''conda''"

definition PypiRequirementStepDecorator_name :: string where
  "PypiRequirementStepDecorator_name = ''pypi''"

text \<open>
  \<open>step_init\<close> of the base class, for an object whose \<open>name\<close> attribute is
  \<open>name\<close>; \<open>env_TYPE\<close> is \<open>environment.TYPE\<close>. The method reads nothing else and
  writes nothing, so the state is any type.
\<close>

definition PackageRequirementStepDecorator_step_init ::
  "string \<Rightarrow> string \<Rightarrow> 's \<Rightarrow> 's outcome" where
  "PackageRequirementStepDecorator_step_init name env_TYPE s =
     (if env_TYPE \<noteq> ''conda''
      then Inl (InvalidEnvironmentException
                  (''The *@'' @ name @ ''* decorator requires --environment=conda''), s)
      else Inr s)"

text \<open>
  The two subclasses define \<open>name\<close> only and inherit \<open>step_init\<close> (the mixins
  listed before the base class are in conda\_common\_decorator.py).
\<close>

definition CondaRequirementStepDecorator_step_init :: "string \<Rightarrow> 's \<Rightarrow> 's outcome" where
  "CondaRequirementStepDecorator_step_init env_TYPE s =
     PackageRequirementStepDecorator_step_init CondaRequirementStepDecorator_name env_TYPE s"

definition PypiRequirementStepDecorator_step_init :: "string \<Rightarrow> 's \<Rightarrow> 's outcome" where
  "PypiRequirementStepDecorator_step_init env_TYPE s =
     PackageRequirementStepDecorator_step_init PypiRequirementStepDecorator_name env_TYPE s"

subsection \<open>CondaEnvInternalDecorator: the guards\<close>

definition is_enabled :: "host \<Rightarrow> state \<Rightarrow> string option \<Rightarrow> bool" where
  "is_enabled h st ubf_context =
     (if ubf_context = Some UBF_CONTROL then False
      else enabled_for_step h (step_name st))"

definition is_fetch_at_exec :: "state \<Rightarrow> string option \<Rightarrow> bool" where
  "is_fetch_at_exec st ubf_context = False"

subsection \<open>step\_init\<close>

text \<open>\<open>decorators\<close> is the list of the \<open>name\<close>s of the step's decorators.\<close>

definition step_init :: "host \<Rightarrow> string \<Rightarrow> string list \<Rightarrow> state \<Rightarrow> state outcome" where
  "step_init h step_name' decorators st =
     Inr (st\<lparr>step_name := step_name',
             env_for_fetch := Map.empty,
             env_id := None,
             is_remote := list_ex (\<lambda>d. d \<in> set (CONDA_REMOTE_COMMANDS h)) decorators,
             os_environ := (os_environ st)(''PYTHONNOUSERSITE'' \<mapsto> ''1'')\<rparr>)"

subsection \<open>The file system calls\<close>


text \<open>
  \<open>tempfile.mkdtemp(dir=d)\<close> tries candidate names, each the prefix \<open>tmp\<close> and
  a name from the generator, and makes a directory of the first one that does not
  exist; after \<open>TMP_MAX\<close> candidates it raises \<open>FileExistsError\<close>. The directory
  \<open>d\<close> itself is taken to exist.
\<close>

definition TMP_MAX :: nat where
  "TMP_MAX = 10000"

fun mkdtemp_loop ::
  "host \<Rightarrow> string \<Rightarrow> (string \<rightharpoonup> node) \<Rightarrow> nat \<Rightarrow> nat \<Rightarrow> (string \<times> nat) option" where
  "mkdtemp_loop h d f seq 0 = None"
| "mkdtemp_loop h d f seq (Suc k) =
     (let file = os_path_join d [''tmp'' @ mkdtemp_names h seq]
      in if f file = None then Some (file, Suc seq)
         else mkdtemp_loop h d f (Suc seq) k)"

definition tempfile_mkdtemp :: "host \<Rightarrow> string \<Rightarrow> state \<Rightarrow> (exn \<times> state) + (string \<times> state)" where
  "tempfile_mkdtemp h d st =
     (case mkdtemp_loop h d (fs st) (tmp_seq st) TMP_MAX of
        None \<Rightarrow>
          Inl (FileExistsError ''No usable temporary directory name found'',
               st\<lparr>tmp_seq := tmp_seq st + TMP_MAX\<rparr>)
      | Some (file, seq') \<Rightarrow>
          Inr (file, st\<lparr>fs := (fs st)(file \<mapsto> Dir), tmp_seq := seq'\<rparr>))"

text \<open>\<open>os.symlink(src, dst)\<close> raises when \<open>dst\<close> exists.\<close>

definition os_symlink :: "string \<Rightarrow> string \<Rightarrow> state \<Rightarrow> state outcome" where
  "os_symlink src dst st =
     (if fs st dst \<noteq> None then Inl (FileExistsError dst, st)
      else Inr (st\<lparr>fs := (fs st)(dst \<mapsto> Symlink src)\<rparr>))"

text \<open>
  \<open>open(path, ''w'')\<close>, \<open>write(text)\<close> and close: the path then holds a regular
  file with this text. (The hooks write only to names inside the directory that
  \<open>mkdtemp\<close> has just made.)
\<close>

definition write_text :: "string \<Rightarrow> string \<Rightarrow> state \<Rightarrow> state" where
  "write_text path text' st = st\<lparr>fs := (fs st)(path \<mapsto> File text')\<rparr>"

text \<open>
  \<open>os.path.isfile\<close> follows symbolic links, at most \<open>MAXSYMLINKS\<close> of them, and
  asks whether a regular file is at the end. A link's target is read as an absolute
  path.
\<close>

definition MAXSYMLINKS :: nat where
  "MAXSYMLINKS = 40"

fun follow_links :: "nat \<Rightarrow> (string \<rightharpoonup> node) \<Rightarrow> string \<Rightarrow> node option" where
  "follow_links 0 f p = (case f p of Some (Symlink t) \<Rightarrow> None | r \<Rightarrow> r)"
| "follow_links (Suc n) f p = (case f p of Some (Symlink t) \<Rightarrow> follow_links n f t | r \<Rightarrow> r)"

definition os_path_isfile :: "(string \<rightharpoonup> node) \<Rightarrow> string \<Rightarrow> bool" where
  "os_path_isfile f p =
     (case follow_links MAXSYMLINKS f p of Some (File c) \<Rightarrow> True | _ \<Rightarrow> False)"


subsection \<open>runtime\_init\<close>

text \<open>
  The body of \<open>if self._is_enabled() and self._is_fetch_at_exec():\<close> at the end of
  \<open>runtime_init\<close>.
\<close>

definition runtime_init_fetch :: "string \<Rightarrow> state \<Rightarrow> state" where
  "runtime_init_fetch run_id st =
     st\<lparr>env_for_fetch :=
          (env_for_fetch st)
            (''METAFLOW_RUN_ID'' \<mapsto> FetchStr run_id,
             ''METAFLOW_RUN_ID_BASE'' \<mapsto> FetchStr run_id,
             ''METAFLOW_STEP_NAME'' \<mapsto> FetchStr (step_name st))\<rparr>"

text \<open>
  The loop over the paths of a namespace package: a fresh directory inside the
  metaflow home for each, a link in it, and the directory appended to
  \<open>self._addl_paths\<close>.
\<close>

fun link_namespace :: "host \<Rightarrow> string \<Rightarrow> string list \<Rightarrow> state \<Rightarrow> state outcome" where
  "link_namespace h home [] st = Inr st"
| "link_namespace h home (p # ps) st =
     (case tempfile_mkdtemp h home st of
        Inl e \<Rightarrow> Inl e
      | Inr (temp_dir, st1) \<Rightarrow>
          and_then (os_symlink p (os_path_join temp_dir [EXT_PKG]) st1)
            (\<lambda>st2. link_namespace h home ps
                      (st2\<lparr>addl_paths :=
                             Some ((case addl_paths st2 of None \<Rightarrow> [] | Some l \<Rightarrow> l) @ [temp_dir])\<rparr>)))"

text \<open>
  The \<open>try: importlib.import_module(EXT_PKG)\<close> statement. \<open>import_EXT_PKG\<close> is
  \<open>None\<close> for an \<open>ImportError\<close> and the module's \<open>__path__\<close> otherwise;
  \<open>list(set(...))\<close> keeps one copy of each path, here in the order of \<open>remdups\<close>.
\<close>

definition link_EXT_PKG :: "host \<Rightarrow> string \<Rightarrow> state \<Rightarrow> state outcome" where
  "link_EXT_PKG h home st =
     (case import_EXT_PKG h of
        None \<Rightarrow> Inr st
      | Some path \<Rightarrow>
          (let custom_paths = remdups path
           in case custom_paths of
                [p] \<Rightarrow> os_symlink p (os_path_join home [EXT_PKG]) st
              | _ \<Rightarrow> link_namespace h home custom_paths (st\<lparr>addl_paths := Some []\<rparr>)))"

text \<open>
  \<open>generate_trampolines(out_dir)\<close> of the host writes one file
  \<open>out_dir/<module>.py\<close> for each module with an environment escape;
  \<open>trampoline_modules\<close> lists the modules and the text written for each.
\<close>

definition generate_trampolines :: "host \<Rightarrow> string \<Rightarrow> state \<Rightarrow> state" where
  "generate_trampolines h out_dir st =
     foldl (\<lambda>s (m, text'). write_text (os_path_join out_dir [m @ ''.py'']) text' s)
       st (trampoline_modules h)"

definition runtime_init :: "host \<Rightarrow> string \<Rightarrow> state \<Rightarrow> state outcome" where
  "runtime_init h run_id st =
     (let path_to_metaflow = os_path_join (get_metaflow_root h) [''metaflow''];
          path_to_info = os_path_join (get_metaflow_root h) [''INFO'']
      in case tempfile_mkdtemp h ''/tmp'' st of
           Inl e \<Rightarrow> Inl e
         | Inr (home, st0) \<Rightarrow>
             and_then
               (os_symlink path_to_metaflow (os_path_join home [''metaflow''])
                  (st0\<lparr>metaflow_home := Some home, addl_paths := None\<rparr>))
               (\<lambda>st1.
                  and_then
                    (if os_path_isfile (fs st1) path_to_info
                     then os_symlink path_to_info (os_path_join home [''INFO'']) st1
                     else Inr (write_text (os_path_join home [''INFO''])
                                 (get_environment_info_json h) st1))
                    (\<lambda>st2.
                       and_then (link_EXT_PKG h home st2)
                         (\<lambda>st3.
                            let st4 = generate_trampolines h home st3
                            in Inr (if is_enabled h st4 None \<and> is_fetch_at_exec st4 None
                                    then runtime_init_fetch run_id st4
                                    else st4)))))"

subsection \<open>runtime\_task\_created\<close>

definition fetch_key :: "string \<Rightarrow> string" where
  "fetch_key var =
     ''METAFLOW_INIT_'' @ str_replace_char (CHR ''-'') (CHR ''_'') (str_upper var)"

text \<open>
  The body of \<open>if self._is_fetch_at_exec(ubf_context):\<close>. The assignment
  \<open>run_id, step_name, task_id = input_paths[0].split(''/'')\<close> raises
  \<open>IndexError\<close> on an empty list and \<open>ValueError\<close> unless there are three parts;
  its \<open>task_id\<close> replaces the hook's argument of that name from there on.
\<close>

definition runtime_task_created_fetch :: "host \<Rightarrow> string list \<Rightarrow> state \<Rightarrow> state outcome" where
  "runtime_task_created_fetch h input_paths st =
     (case input_paths of
        [] \<Rightarrow> Inl (IndexError, st)
      | p0 # _ \<Rightarrow>
          (case str_split (CHR ''/'') p0 of
             [run_id, step_name', task_id] \<Rightarrow>
               (let parent_ds = (run_id, step_name', task_id);
                    st1 = foldl (\<lambda>s var.
                                   s\<lparr>env_for_fetch :=
                                       (env_for_fetch s)(fetch_key var \<mapsto> FetchParam var parent_ds)\<rparr>)
                            st (get_parameters h);
                    st2 = st1\<lparr>env_for_fetch :=
                                (env_for_fetch st1)(''METAFLOW_TASK_ID'' \<mapsto> FetchStr task_id)\<rparr>;
                    st3 = st2\<lparr>env_id :=
                                resolve_fetch_at_exec_env h (step_name st2) (env_for_fetch st2)\<rparr>
                in if env_id st3 = None
                   then Inl (InvalidEnvironmentException
                               ''Cannot find the environment ID for a fetch-at-exec step'', st3)
                   else Inr st3)
           | _ \<Rightarrow> Inl (ValueError, st)))"

text \<open>The \<open>else\<close> branch: the environment ID comes from \<open>get_env_id_noconda\<close>.\<close>

definition quoted :: "string \<Rightarrow> string" where
  "quoted s = [CHR 0x27] @ s @ [CHR 0x27]"

definition runtime_task_created_noconda :: "host \<Rightarrow> state \<Rightarrow> state outcome" where
  "runtime_task_created_noconda h st =
     (case get_env_id_noconda h (step_name st) of
        IsEnvID t \<Rightarrow> Inr (st\<lparr>env_id := Some t\<rparr>)
      | IsStr t \<Rightarrow>
          Inl (InvalidEnvironmentException
                 (''Unexpected ID for the Conda environment for step '' @ quoted (step_name st)
                  @ '': '' @ quoted t), st))"

definition runtime_task_created ::
  "host \<Rightarrow> string \<Rightarrow> string list \<Rightarrow> string option \<Rightarrow> state \<Rightarrow> state outcome" where
  "runtime_task_created h task_id input_paths ubf_context st =
     (if is_enabled h st ubf_context
      then if is_fetch_at_exec st ubf_context
           then runtime_task_created_fetch h input_paths st
           else runtime_task_created_noconda h st
      else Inr st)"

subsection \<open>runtime\_step\_cli\<close>

text \<open>
  From \<open>conda = cast(Conda, self._env.conda)\<close> to the end of the \<open>if
  existing_env_info:\<close> statement: the outcome is the value of \<open>entrypoint\<close>.
  A call of \<open>conda.create_for_step\<close> is recorded in \<open>created_envs\<close>.
\<close>

definition runtime_step_cli_create ::
  "host \<Rightarrow> state \<Rightarrow> (exn \<times> state) + (string option \<times> state)" where
  "runtime_step_cli_create h st =
     (case env_id st of
        None \<Rightarrow> Inl (AssertionError, st)
      | Some eid \<Rightarrow>
          (case created_environment h eid of
             Some existing_env_info \<Rightarrow>
               Inr (Some (os_path_join (snd existing_env_info) [''bin'', ''python'']),
                    st\<lparr>echo_log := echo_log st @
                         [''Using existing Conda environment '' @ req_id eid
                          @ '' ('' @ full_id eid @ '')'']\<rparr>)
           | None \<Rightarrow>
               (let st1 = st\<lparr>echo_log := echo_log st @
                               [''Creating Conda environment '' @ req_id eid
                                @ '' ('' @ full_id eid @ '')...'']\<rparr>
                in case conda_environment h eid of
                     Some resolved_env \<Rightarrow>
                       Inr (Some (os_path_join
                                    (create_for_step h (step_name st1) resolved_env)
                                    [''bin'', ''python'']),
                            st1\<lparr>created_envs :=
                                  created_envs st1 @ [(step_name st1, resolved_env)]\<rparr>)
                   | None \<Rightarrow>
                       Inl (InvalidEnvironmentException ''Cannot create environment'', st1))))"

text \<open>From \<open>python_path = self._metaflow_home\<close> to the end of the hook.\<close>

definition runtime_step_cli_setup ::
  "host \<Rightarrow> string option \<Rightarrow> state \<Rightarrow> cli_args \<Rightarrow> (state \<times> cli_args) outcome" where
  "runtime_step_cli_setup h entrypoint' st c =
     (case metaflow_home st of
        None \<Rightarrow> Inl (AttributeError ''_metaflow_home'', (st, c))
      | Some home \<Rightarrow>
          (let python_path =
                 (case addl_paths st of
                    None \<Rightarrow> home
                  | Some ps \<Rightarrow> str_join os_pathsep [str_join os_pathsep ps, home]);
               c1 = c\<lparr>env := (env c)(''PYTHONPATH'' \<mapsto> python_path)\<rparr>
           in case entrypoint' of
                None \<Rightarrow>
                  Inl (InvalidEnvironmentException ''No executable found for environment'',
                       (st, c1))
              | Some ep \<Rightarrow>
                  (let c2 =
                         (if startswith (arch_id h) ''linux''
                          then (case os_environ st ''LD_LIBRARY_PATH'' of
                                  None \<Rightarrow> c1
                                | Some old_ld_path \<Rightarrow>
                                    if old_ld_path \<noteq> []
                                    then c1\<lparr>env := (env c1)(''LD_LIBRARY_PATH'' \<mapsto>
                                            str_join '':''
                                              [os_path_join
                                                 (os_path_dirname (os_path_dirname ep)) [''lib''],
                                               old_ld_path])\<rparr>
                                    else c1)
                          else c1)
                   in case entrypoint c2 of
                        [] \<Rightarrow> Inl (IndexError, (st, c2))
                      | e0 # rest \<Rightarrow> Inr (st, c2\<lparr>entrypoint := ep # rest\<rparr>))))"

definition runtime_step_cli ::
  "host \<Rightarrow> cli_args \<Rightarrow> int \<Rightarrow> int \<Rightarrow> string option \<Rightarrow> state \<Rightarrow> (state \<times> cli_args) outcome" where
  "runtime_step_cli h cli retry_count max_user_code_retries ubf_context st =
     (if is_enabled h st (Some UBF_TASK) \<or> is_fetch_at_exec st ubf_context
      then (let c0 = cli\<lparr>env := (env cli)(''_METAFLOW_CONDA_ENV'' \<mapsto> json_dumps h (env_id st))\<rparr>
            in if is_remote st \<or> \<not> is_enabled h st ubf_context
               then Inr (st, c0)
               else (case runtime_step_cli_create h st of
                       Inl (e, st1) \<Rightarrow> Inl (e, (st1, c0))
                     | Inr (entrypoint', st1) \<Rightarrow> runtime_step_cli_setup h entrypoint' st1 c0))
      else Inr (st, cli))"

subsection \<open>task\_pre\_step and runtime\_finished\<close>

definition task_pre_step ::
  "host \<Rightarrow> string \<Rightarrow> string \<Rightarrow> string \<Rightarrow> int \<Rightarrow> string option \<Rightarrow> state \<Rightarrow> state outcome" where
  "task_pre_step h step_name' run_id task_id retry_count ubf_context st =
     (if is_enabled h st ubf_context
      then (let env_path0 = os_path_dirname (realpath_sys_executable h);
                env_path = (case os_environ st ''PATH'' of
                              None \<Rightarrow> env_path0
                            | Some old \<Rightarrow> str_join os_pathsep [env_path0, old]);
                st1 = st\<lparr>os_environ := (os_environ st)(''PATH'' \<mapsto> env_path)\<rparr>
            in case os_environ st1 ''_METAFLOW_CONDA_ENV'' of
                 None \<Rightarrow> Inl (KeyError ''_METAFLOW_CONDA_ENV'', st1)
               | Some v \<Rightarrow>
                   Inr (st1\<lparr>registered := registered st1 @
                              [(run_id, step_name', task_id,
                                [MetaDatum ''conda_env_id'' v ''conda_env_id''
                                   [''attempt_id:'' @ str_int retry_count]])]\<rparr>))
      else Inr st)"


subsection \<open>Reading an outcome\<close>

text \<open>The state a call leaves behind, however it ends, and the exception it raised.\<close>

definition final :: "'s outcome \<Rightarrow> 's" where
  "final r = (case r of Inl (e, s) \<Rightarrow> s | Inr s \<Rightarrow> s)"

definition raised :: "'s outcome \<Rightarrow> exn option" where
  "raised r = (case r of Inl (e, s) \<Rightarrow> Some e | Inr s \<Rightarrow> None)"

subsection \<open>A concrete host, state and command line\<close>

text \<open>
  A small installation to run the hooks on: every step but \<open>end\<close> is enabled, the
  environment \<open>r1\<close> exists already, \<open>r2\<close> can be resolved and created, any other
  cannot; the extension package is a namespace package with two paths.
\<close>

definition example_json_dumps :: "EnvID option \<Rightarrow> string" where
  "example_json_dumps e =
     (case e of
        None \<Rightarrow> ''null''
      | Some i \<Rightarrow> ''['' @ [CHR 0x22] @ req_id i @ [CHR 0x22] @ '', ''
                  @ [CHR 0x22] @ full_id i @ [CHR 0x22] @ '']'')"

definition example_host :: host where
  "example_host =
     \<lparr>enabled_for_step = (\<lambda>s. s \<noteq> ''end''),
      get_env_id_noconda =
        (\<lambda>s. if s = ''start'' then IsEnvID \<lparr>req_id = ''r1'', full_id = ''f1''\<rparr>
             else IsStr ''_fake''),
      resolve_fetch_at_exec_env =
        (\<lambda>s m. case m ''METAFLOW_TASK_ID'' of
                  Some (FetchStr t) \<Rightarrow>
                    if t = ''7'' then Some \<lparr>req_id = ''r7'', full_id = ''f7''\<rparr> else None
                | _ \<Rightarrow> None),
      get_environment_info_json = ''{}'',
      created_environment =
        (\<lambda>e. if req_id e = ''r1'' then Some (''env1'', ''/conda/envs/env1'') else None),
      conda_environment =
        (\<lambda>e. if req_id e = ''r2'' then Some (ResolvedEnvironment ''r2'') else None),
      create_for_step = (\<lambda>s r. ''/conda/envs/'' @ s),
      arch_id = ''linux-64'',
      CONDA_REMOTE_COMMANDS = [''batch'', ''kubernetes''],
      get_metaflow_root = ''/opt/mf'',
      import_EXT_PKG = Some [''/opt/ext_a'', ''/opt/ext_b'', ''/opt/ext_a''],
      trampoline_modules = [(''numpy'', ''# trampoline'')],
      get_parameters = [''alpha'', ''my-beta''],
      json_dumps = example_json_dumps,
      realpath_sys_executable = ''/conda/envs/env1/bin/python3.10'',
      mkdtemp_names = (\<lambda>n. replicate (Suc n) (CHR ''a''))\<rparr>"

definition example_state :: state where
  "example_state =
     \<lparr>step_name = ''start'',
      env_for_fetch = Map.empty,
      env_id = None,
      is_remote = False,
      metaflow_home = None,
      addl_paths = None,
      os_environ = [''PATH'' \<mapsto> ''/usr/bin'', ''LD_LIBRARY_PATH'' \<mapsto> ''/usr/lib''],
      fs = [''/tmp'' \<mapsto> Dir, ''/tmp/tmpa'' \<mapsto> Dir, ''/opt/mf/INFO'' \<mapsto> File ''info''],
      tmp_seq = 0,
      echo_log = [],
      created_envs = [],
      registered = []\<rparr>"

text \<open>The state of a task of step \<open>start\<close> whose environment ID has \<open>req_id = r\<close>.\<close>

definition example_task_state :: "string \<Rightarrow> state" where
  "example_task_state r =
     example_state\<lparr>env_id := Some \<lparr>req_id = r, full_id = ''f1''\<rparr>,
                   metaflow_home := Some ''/tmp/tmpaa'',
                   addl_paths := Some [''/tmp/tmpaa/tmpaaa'', ''/tmp/tmpaa/tmpaaaa'']\<rparr>"

definition example_cli :: cli_args where
  "example_cli = \<lparr>entrypoint = [''/usr/bin/python'', ''flow.py''], env = Map.empty\<rparr>"

lemmas example_defs =
  example_host_def example_state_def example_cli_def example_task_state_def
  example_json_dumps_def UBF_TASK_def UBF_CONTROL_def

section \<open>Properties\<close>

subsection \<open>Basic facts\<close>

lemma final_Inr [simp]: "final (Inr s) = s"
  by (simp add: final_def)

lemma final_Inl [simp]: "final (Inl (e, s)) = s"
  by (simp add: final_def)



lemma UBF_TASK_not_CONTROL: "UBF_TASK \<noteq> UBF_CONTROL"
  by (simp add: UBF_TASK_def UBF_CONTROL_def)

lemma is_enabled_UBF_TASK:
  "is_enabled h st (Some UBF_TASK) = enabled_for_step h (step_name st)"
  by (simp add: is_enabled_def UBF_TASK_not_CONTROL)

lemma is_enabled_imp: "is_enabled h st u \<Longrightarrow> enabled_for_step h (step_name st)"
  by (simp add: is_enabled_def split: if_splits)

subsection \<open>The guard of the @conda and @pypi decorators\<close>

text \<open>
  C10. \<open>PackageRequirementStepDecorator.step_init\<close> raises exactly when
  \<open>environment.TYPE\<close> is not \<open>conda\<close>, and what it raises is an
  \<open>InvalidEnvironmentException\<close> naming the decorator; when it returns, the state is
  the one it was called in. The \<open>@conda\<close> and \<open>@pypi\<close> decorators run the same
  method under their own \<open>name\<close>, so the guard is theirs too.
\<close>

theorem package_requirement_step_init:
  "(isl (PackageRequirementStepDecorator_step_init name env_TYPE s) \<longleftrightarrow> env_TYPE \<noteq> ''conda'')
   \<and> (\<forall>e s'. PackageRequirementStepDecorator_step_init name env_TYPE s = Inl (e, s') \<longrightarrow>
         e = InvalidEnvironmentException
               (''The *@'' @ name @ ''* decorator requires --environment=conda'') \<and> s' = s)
   \<and> (\<forall>s'. PackageRequirementStepDecorator_step_init name env_TYPE s = Inr s' \<longrightarrow> s' = s)
   \<and> CondaRequirementStepDecorator_step_init env_TYPE s =
         PackageRequirementStepDecorator_step_init ''conda'' env_TYPE s
   \<and> PypiRequirementStepDecorator_step_init env_TYPE s =
         PackageRequirementStepDecorator_step_init ''pypi'' env_TYPE s
   \<and> (isl (CondaRequirementStepDecorator_step_init env_TYPE s) \<longleftrightarrow> env_TYPE \<noteq> ''conda'')
   \<and> (isl (PypiRequirementStepDecorator_step_init env_TYPE s) \<longleftrightarrow> env_TYPE \<noteq> ''conda'')"
  by (simp add: PackageRequirementStepDecorator_step_init_def
      CondaRequirementStepDecorator_step_init_def PypiRequirementStepDecorator_step_init_def
      CondaRequirementStepDecorator_name_def PypiRequirementStepDecorator_name_def)

text \<open>With \<open>--environment=local\<close> the \<open>@pypi\<close> decorator raises; with \<open>conda\<close> it returns.\<close>

theorem package_requirement_step_init_witness:
  "PypiRequirementStepDecorator_step_init ''local'' example_state =
     Inl (InvalidEnvironmentException ''The *@pypi* decorator requires --environment=conda'',
          example_state)
   \<and> CondaRequirementStepDecorator_step_init ''conda'' example_state = Inr example_state"
  using package_requirement_step_init [of "''pypi''" "''local''" example_state]
    package_requirement_step_init [of "''conda''" "''conda''" example_state]
  by (cases "PackageRequirementStepDecorator_step_init ''pypi'' ''local'' example_state";
      cases "PackageRequirementStepDecorator_step_init ''conda'' ''conda'' example_state")
    auto

subsection \<open>Control tasks\<close>

text \<open>
  C3. For a control task (\<open>ubf_context = UBF_CONTROL\<close>) the guard \<open>_is_enabled\<close> is
  false whatever the step. Each hook that takes the context then leaves the state as it
  is: \<open>runtime_step_cli\<close> returns with the same state (so with no call of
  \<open>conda.create_for_step\<close> recorded) and the same entry point,
  \<open>runtime_task_created\<close> and \<open>task_pre_step\<close> return at once.
\<close>

theorem control_task_not_enabled:
  "is_enabled h st (Some UBF_CONTROL) = False
   \<and> (\<exists>c. runtime_step_cli h cli retry_count max_user_code_retries (Some UBF_CONTROL) st
              = Inr (st, c)
          \<and> entrypoint c = entrypoint cli)
   \<and> runtime_task_created h task_id input_paths (Some UBF_CONTROL) st = Inr st
   \<and> task_pre_step h step_name' run_id task_id retry_count (Some UBF_CONTROL) st = Inr st"
  by (simp add: is_enabled_def runtime_step_cli_def runtime_task_created_def task_pre_step_def
      is_fetch_at_exec_def Let_def)

theorem control_task_not_enabled_witness:
  "created_envs (fst (final (runtime_step_cli example_host example_cli 0 3 (Some UBF_CONTROL)
      (example_task_state ''r2'')))) = []
   \<and> entrypoint (snd (final (runtime_step_cli example_host example_cli 0 3 (Some UBF_CONTROL)
      (example_task_state ''r2'')))) = [''/usr/bin/python'', ''flow.py'']"
proof -
  from control_task_not_enabled [of example_host "example_task_state ''r2''" example_cli 0 3
      "''9''" "[]" "''start''" "''12''"]
  obtain c where
    "runtime_step_cli example_host example_cli 0 3 (Some UBF_CONTROL) (example_task_state ''r2'')
       = Inr (example_task_state ''r2'', c)"
    and "entrypoint c = entrypoint example_cli"
    by blast
  then show ?thesis
    by (simp add: example_state_def example_task_state_def example_cli_def)
qed

subsection \<open>The early return of runtime\_step\_cli\<close>

text \<open>
  C4. When the step runs remotely or \<open>_is_enabled(ubf_context)\<close> is false, while
  \<open>_is_enabled(UBF_TASK)\<close> or \<open>_is_fetch_at_exec(ubf_context)\<close> holds,
  \<open>runtime_step_cli\<close> returns with \<open>cli_args.env[_METAFLOW_CONDA_ENV]\<close> set to
  \<open>json.dumps(self._env_id)\<close> and nothing else changed: the entry point and every other
  variable of \<open>cli_args.env\<close> (\<open>PYTHONPATH\<close> and \<open>LD_LIBRARY_PATH\<close> among them) are
  as before, and so is the state, with no environment created.
\<close>

theorem runtime_step_cli_early_return:
  assumes "is_remote st \<or> \<not> is_enabled h st ubf_context"
    and "is_enabled h st (Some UBF_TASK) \<or> is_fetch_at_exec st ubf_context"
  shows "runtime_step_cli h cli retry_count max_user_code_retries ubf_context st =
           Inr (st, cli\<lparr>env := (env cli)(''_METAFLOW_CONDA_ENV'' \<mapsto> json_dumps h (env_id st))\<rparr>)"
  using assms by (auto simp add: runtime_step_cli_def Let_def)

text \<open>A remote step, and the control task of a local one.\<close>

theorem runtime_step_cli_early_return_witness:
  "runtime_step_cli example_host example_cli 0 3 (Some UBF_TASK)
     ((example_task_state ''r2'')\<lparr>is_remote := True\<rparr>) =
     Inr ((example_task_state ''r2'')\<lparr>is_remote := True\<rparr>,
          example_cli\<lparr>env := [''_METAFLOW_CONDA_ENV'' \<mapsto>
            example_json_dumps (Some \<lparr>req_id = ''r2'', full_id = ''f1''\<rparr>)]\<rparr>)
   \<and> runtime_step_cli example_host example_cli 0 3 (Some UBF_CONTROL) example_state =
     Inr (example_state, example_cli\<lparr>env := [''_METAFLOW_CONDA_ENV'' \<mapsto> ''null'']\<rparr>)"
proof -
  have r: "is_remote ((example_task_state ''r2'')\<lparr>is_remote := True\<rparr>)
           \<or> \<not> is_enabled example_host ((example_task_state ''r2'')\<lparr>is_remote := True\<rparr>)
                 (Some UBF_TASK)"
    by simp
  have c: "is_remote example_state \<or> \<not> is_enabled example_host example_state (Some UBF_CONTROL)"
    by (simp add: is_enabled_def)
  have t: "is_enabled example_host ((example_task_state ''r2'')\<lparr>is_remote := True\<rparr>) (Some UBF_TASK)
           \<or> is_fetch_at_exec ((example_task_state ''r2'')\<lparr>is_remote := True\<rparr>) (Some UBF_TASK)"
    by (simp add: example_defs is_enabled_def)
  have t': "is_enabled example_host example_state (Some UBF_TASK)
            \<or> is_fetch_at_exec example_state (Some UBF_CONTROL)"
    by (simp add: example_defs is_enabled_def)
  from runtime_step_cli_early_return [OF r t, of example_cli 0 3]
    runtime_step_cli_early_return [OF c t', of example_cli 0 3]
  show ?thesis
    by (simp add: example_defs)
qed

subsection \<open>Provisioning the environment of a worker task\<close>

text \<open>
  A worker task of an enabled, local step with an empty answer from both
  \<open>conda.created_environment\<close> and \<open>conda.environment\<close>: \<open>runtime_step_cli\<close>
  raises \<open>InvalidEnvironmentException\<close>, no environment is created, the entry point
  is the one passed in and \<open>PYTHONPATH\<close> is not set.
\<close>

theorem runtime_step_cli_cannot_create:
  "is_enabled example_host (example_task_state ''r3'') (Some UBF_TASK)
   \<and> \<not> is_remote (example_task_state ''r3'')
   \<and> created_environment example_host \<lparr>req_id = ''r3'', full_id = ''f1''\<rparr> = None
   \<and> raised (runtime_step_cli example_host example_cli 0 3 (Some UBF_TASK)
               (example_task_state ''r3''))
       = Some (InvalidEnvironmentException ''Cannot create environment'')
   \<and> created_envs (fst (final (runtime_step_cli example_host example_cli 0 3 (Some UBF_TASK)
        (example_task_state ''r3'')))) = []
   \<and> entrypoint (snd (final (runtime_step_cli example_host example_cli 0 3 (Some UBF_TASK)
        (example_task_state ''r3'')))) = [''/usr/bin/python'', ''flow.py'']
   \<and> env (snd (final (runtime_step_cli example_host example_cli 0 3 (Some UBF_TASK)
        (example_task_state ''r3'')))) ''PYTHONPATH'' = None"
  by (simp add: example_defs is_enabled_def is_fetch_at_exec_def runtime_step_cli_def
      runtime_step_cli_create_def raised_def Let_def)

text \<open>
  C1, amended. Take a task for which \<open>_is_enabled(ubf_context)\<close> holds (an enabled
  step, not a control task) and which does not run remotely, with \<open>self._env_id\<close> and
  \<open>self._metaflow_home\<close> set (as \<open>runtime_task_created\<close> and \<open>runtime_init\<close> leave
  them) and a non-empty \<open>cli_args.entrypoint\<close>. Then \<open>runtime_step_cli\<close>
  \<^item> reuses the environment \<open>conda.created_environment\<close> reports, if any;
  \<^item> otherwise creates the environment \<open>conda.environment\<close> resolves, by one call of
    \<open>conda.create_for_step\<close>;
  \<^item> and in both cases returns with \<open>cli_args.entrypoint[0]\<close> set to \<open>bin/python\<close>
    under the environment's path and \<open>PYTHONPATH\<close> set to the metaflow home, after the
    additional namespace-package paths if there are any;
  \<^item> but raises \<open>InvalidEnvironmentException\<close> when there is no environment and
    \<open>conda.environment\<close> resolves none: nothing is created then, and the entry point
    and \<open>PYTHONPATH\<close> are as they were.
\<close>

theorem runtime_step_cli_provisions:
  assumes en: "is_enabled h st ubf_context" and nr: "\<not> is_remote st"
    and eid: "env_id st = Some eid" and home: "metaflow_home st = Some home"
    and ep: "entrypoint cli = e0 # rest"
  shows "let python_path = (case addl_paths st of
                              None \<Rightarrow> home
                            | Some ps \<Rightarrow> str_join os_pathsep ps @ os_pathsep @ home);
             r = runtime_step_cli h cli retry_count max_user_code_retries ubf_context st
         in case created_environment h eid of
              Some existing \<Rightarrow>
                \<exists>st' c. r = Inr (st', c) \<and> created_envs st' = created_envs st
                  \<and> entrypoint c = os_path_join (snd existing) [''bin'', ''python''] # rest
                  \<and> env c ''PYTHONPATH'' = Some python_path
            | None \<Rightarrow>
                (case conda_environment h eid of
                   Some resolved \<Rightarrow>
                     \<exists>st' c. r = Inr (st', c)
                       \<and> created_envs st' = created_envs st @ [(step_name st, resolved)]
                       \<and> entrypoint c =
                           os_path_join (create_for_step h (step_name st) resolved)
                             [''bin'', ''python''] # rest
                       \<and> env c ''PYTHONPATH'' = Some python_path
                 | None \<Rightarrow>
                     \<exists>st' c. r = Inl (InvalidEnvironmentException ''Cannot create environment'',
                                       (st', c))
                       \<and> created_envs st' = created_envs st
                       \<and> entrypoint c = entrypoint cli
                       \<and> env c ''PYTHONPATH'' = env cli ''PYTHONPATH'')"
proof -
  from en have task: "is_enabled h st (Some UBF_TASK)"
    by (simp add: is_enabled_UBF_TASK is_enabled_imp)
  show ?thesis
  proof (cases "created_environment h eid")
    case (Some existing)
    with en nr eid home ep task show ?thesis
      by (simp add: runtime_step_cli_def runtime_step_cli_create_def
          runtime_step_cli_setup_def Let_def split: option.split)
  next
    case None
    note ce = this
    show ?thesis
    proof (cases "conda_environment h eid")
      case None
      with ce en nr eid home ep task show ?thesis
        by (simp add: runtime_step_cli_def runtime_step_cli_create_def Let_def)
    next
      case (Some resolved)
      with ce en nr eid home ep task show ?thesis
        by (simp add: runtime_step_cli_def runtime_step_cli_create_def
            runtime_step_cli_setup_def Let_def split: option.split)
    qed
  qed
qed

text \<open>The environment \<open>r2\<close> does not exist yet and is created for step \<open>start\<close>.\<close>

theorem runtime_step_cli_provisions_witness:
  "is_enabled example_host (example_task_state ''r2'') None
   \<and> \<not> is_remote (example_task_state ''r2'')
   \<and> (\<exists>st' c. runtime_step_cli example_host example_cli 0 3 None (example_task_state ''r2'')
                 = Inr (st', c)
         \<and> created_envs st' = [(''start'', ResolvedEnvironment ''r2'')]
         \<and> entrypoint c = [''/conda/envs/start/bin/python'', ''flow.py'']
         \<and> env c ''PYTHONPATH'' = Some ''/tmp/tmpaa/tmpaaa:/tmp/tmpaa/tmpaaaa:/tmp/tmpaa'')"
proof -
  have en: "is_enabled example_host (example_task_state ''r2'') None"
    by (simp add: example_defs is_enabled_def)
  have nr: "\<not> is_remote (example_task_state ''r2'')"
    by (simp add: example_defs)
  have eid: "env_id (example_task_state ''r2'') = Some \<lparr>req_id = ''r2'', full_id = ''f1''\<rparr>"
    by (simp add: example_defs)
  have home: "metaflow_home (example_task_state ''r2'') = Some ''/tmp/tmpaa''"
    by (simp add: example_defs)
  have ep: "entrypoint example_cli = ''/usr/bin/python'' # [''flow.py'']"
    by (simp add: example_defs)
  from runtime_step_cli_provisions [OF en nr eid home ep, of 0 3] en nr show ?thesis
    by (simp add: example_defs os_path_join_def join_step_def startswith_def os_pathsep_def
        Let_def)
qed

subsection \<open>The environment ID across the process boundary\<close>





subsection \<open>The environment of the current process\<close>

text \<open>
  C9. \<open>step_init\<close> always returns, and after it \<open>os.environ[PYTHONNOUSERSITE]\<close> is
  \<open>1\<close>. When \<open>_is_enabled(ubf_context)\<close> holds, \<open>task_pre_step\<close> leaves in
  \<open>os.environ[PATH]\<close> the directory of the resolved \<open>sys.executable\<close>, followed by
  \<open>os.pathsep\<close> and the previous value when there was one (also when the hook raises
  afterwards). Both write to the process's own environment, not to \<open>cli_args.env\<close>.
\<close>

theorem parent_environment_mutated:
  "step_init h step_name' decorators st = Inr (final (step_init h step_name' decorators st))
   \<and> os_environ (final (step_init h step_name' decorators st)) ''PYTHONNOUSERSITE'' = Some ''1''
   \<and> (is_enabled h st ubf_context \<longrightarrow>
        os_environ (final (task_pre_step h sn run_id task_id retry_count ubf_context st)) ''PATH'' =
          Some (case os_environ st ''PATH'' of
                  None \<Rightarrow> os_path_dirname (realpath_sys_executable h)
                | Some old \<Rightarrow> os_path_dirname (realpath_sys_executable h) @ os_pathsep @ old))"
  by (simp add: step_init_def task_pre_step_def final_def Let_def split: option.split)

lemma example_dirname: "os_path_dirname ''/conda/envs/env1/bin/python3.10'' = ''/conda/envs/env1/bin''"
  by (simp add: os_path_dirname_def)

theorem parent_environment_mutated_witness:
  "is_enabled example_host example_state None
   \<and> os_environ (final (step_init example_host ''start'' [''batch''] example_state))
        ''PYTHONNOUSERSITE'' = Some ''1''
   \<and> os_environ (final (task_pre_step example_host ''start'' ''12'' ''9'' 0 None example_state))
        ''PATH'' = Some ''/conda/envs/env1/bin:/usr/bin''"
proof -
  have en: "is_enabled example_host example_state None"
    by (simp add: example_defs is_enabled_def)
  from parent_environment_mutated [of example_host "''start''" "[''batch'']" example_state None
      "''start''" "''12''" "''9''" 0] en
  show ?thesis
    by (simp add: example_host_def example_state_def example_dirname os_pathsep_def)
qed

subsection \<open>Recovering the environment ID\<close>

text \<open>The loop over the flow's parameters only writes \<open>env_for_fetch\<close>.\<close>

lemma record_params_state:
  "foldl (\<lambda>s var. s\<lparr>env_for_fetch :=
                       (env_for_fetch s)(fetch_key var \<mapsto> FetchParam var ds)\<rparr>) st ps
   = st\<lparr>env_for_fetch :=
          foldl (\<lambda>m var. m(fetch_key var \<mapsto> FetchParam var ds)) (env_for_fetch st) ps\<rparr>"
  by (induction ps arbitrary: st) simp_all





lemma runtime_task_created_fetch_split:
  assumes "str_split (CHR ''/'') p0 = [r, s, t]"
  shows "runtime_task_created_fetch h (p0 # ps) st =
     (let m = (foldl (\<lambda>m var. m(fetch_key var \<mapsto> FetchParam var (r, s, t)))
                 (env_for_fetch st) (get_parameters h))(''METAFLOW_TASK_ID'' \<mapsto> FetchStr t);
          st' = st\<lparr>env_for_fetch := m, env_id := resolve_fetch_at_exec_env h (step_name st) m\<rparr>
      in if resolve_fetch_at_exec_env h (step_name st) m = None
         then Inl (InvalidEnvironmentException
                     ''Cannot find the environment ID for a fetch-at-exec step'', st')
         else Inr st')"
  using assms by (simp add: runtime_task_created_fetch_def record_params_state Let_def)


text \<open>
  C2. When \<open>_is_enabled(ubf_context)\<close> holds, \<open>runtime_task_created\<close> sets
  \<open>self._env_id\<close> to the value of \<open>get_env_id_noconda\<close> if that is an \<open>EnvID\<close> and
  raises \<open>InvalidEnvironmentException\<close>, with the state untouched, if it is not. The
  fetch-at-exec branch, run on an \<open>input_paths[0]\<close> of the form \<open>run/step/task\<close>,
  assigns to \<open>self._env_id\<close> what \<open>resolve_fetch_at_exec_env\<close> returns for the step
  name and the recorded \<open>_env_for_fetch\<close>, and raises
  \<open>InvalidEnvironmentException\<close> exactly when that is \<open>None\<close>.
\<close>

theorem runtime_task_created_env_id:
  "(is_enabled h st ubf_context \<longrightarrow>
      (case get_env_id_noconda h (step_name st) of
         IsEnvID t \<Rightarrow>
           runtime_task_created h task_id input_paths ubf_context st = Inr (st\<lparr>env_id := Some t\<rparr>)
       | IsStr t \<Rightarrow>
           \<exists>msg. runtime_task_created h task_id input_paths ubf_context st =
                    Inl (InvalidEnvironmentException msg, st)))
   \<and> (str_split (CHR ''/'') p0 = [r, s, t] \<longrightarrow>
        (\<exists>st'. env_id st' = resolve_fetch_at_exec_env h (step_name st) (env_for_fetch st')
           \<and> (case env_id st' of
                 None \<Rightarrow>
                   \<exists>msg. runtime_task_created_fetch h (p0 # ps) st =
                            Inl (InvalidEnvironmentException msg, st')
               | Some e \<Rightarrow> runtime_task_created_fetch h (p0 # ps) st = Inr st')))"
proof (intro conjI impI)
  assume "is_enabled h st ubf_context"
  then show "case get_env_id_noconda h (step_name st) of
         IsEnvID t \<Rightarrow>
           runtime_task_created h task_id input_paths ubf_context st = Inr (st\<lparr>env_id := Some t\<rparr>)
       | IsStr t \<Rightarrow>
           \<exists>msg. runtime_task_created h task_id input_paths ubf_context st =
                    Inl (InvalidEnvironmentException msg, st)"
    by (simp add: runtime_task_created_def runtime_task_created_noconda_def is_fetch_at_exec_def
        split: env_id_or_str.split)
next
  assume sp: "str_split (CHR ''/'') p0 = [r, s, t]"
  define m where "m = (foldl (\<lambda>m var. m(fetch_key var \<mapsto> FetchParam var (r, s, t)))
                 (env_for_fetch st) (get_parameters h))(''METAFLOW_TASK_ID'' \<mapsto> FetchStr t)"
  define st' where
    "st' = st\<lparr>env_for_fetch := m, env_id := resolve_fetch_at_exec_env h (step_name st) m\<rparr>"
  have "env_id st' = resolve_fetch_at_exec_env h (step_name st) (env_for_fetch st')"
    by (simp add: st'_def)
  moreover have "case env_id st' of
                 None \<Rightarrow>
                   \<exists>msg. runtime_task_created_fetch h (p0 # ps) st =
                            Inl (InvalidEnvironmentException msg, st')
               | Some e \<Rightarrow> runtime_task_created_fetch h (p0 # ps) st = Inr st'"
    using runtime_task_created_fetch_split [OF sp, of h ps st]
    by (auto simp add: Let_def st'_def m_def split: option.split)
  ultimately show "\<exists>st'. env_id st' = resolve_fetch_at_exec_env h (step_name st) (env_for_fetch st')
           \<and> (case env_id st' of
                 None \<Rightarrow>
                   \<exists>msg. runtime_task_created_fetch h (p0 # ps) st =
                            Inl (InvalidEnvironmentException msg, st')
               | Some e \<Rightarrow> runtime_task_created_fetch h (p0 # ps) st = Inr st')"
    by blast
qed

text \<open>
  Step \<open>start\<close> gets its \<open>EnvID\<close>; step \<open>middle\<close>, for which \<open>get_env_id_noconda\<close>
  answers with a string, raises.
\<close>

theorem runtime_task_created_env_id_witness:
  "is_enabled example_host example_state None
   \<and> runtime_task_created example_host ''9'' [''12/start/7''] None example_state =
       Inr (example_state\<lparr>env_id := Some \<lparr>req_id = ''r1'', full_id = ''f1''\<rparr>\<rparr>)
   \<and> is_enabled example_host (example_state\<lparr>step_name := ''middle''\<rparr>) None
   \<and> (\<exists>msg. runtime_task_created example_host ''9'' [''12/start/7''] None
               (example_state\<lparr>step_name := ''middle''\<rparr>) =
             Inl (InvalidEnvironmentException msg, example_state\<lparr>step_name := ''middle''\<rparr>))"
proof -
  have en: "is_enabled example_host example_state None"
    and en': "is_enabled example_host (example_state\<lparr>step_name := ''middle''\<rparr>) None"
    by (simp_all add: example_defs is_enabled_def)
  from runtime_task_created_env_id [of example_host example_state None "''9''"
      "[''12/start/7'']" "''12/start/7''" "''12''" "''start''" "''7''" "[]"] en
  have a: "runtime_task_created example_host ''9'' [''12/start/7''] None example_state =
       Inr (example_state\<lparr>env_id := Some \<lparr>req_id = ''r1'', full_id = ''f1''\<rparr>\<rparr>)"
    by (simp add: example_host_def example_state_def)
  from runtime_task_created_env_id [of example_host "example_state\<lparr>step_name := ''middle''\<rparr>"
      None "''9''" "[''12/start/7'']" "''12/start/7''" "''12''" "''start''" "''7''" "[]"] en'
  have b: "\<exists>msg. runtime_task_created example_host ''9'' [''12/start/7''] None
               (example_state\<lparr>step_name := ''middle''\<rparr>) =
             Inl (InvalidEnvironmentException msg, example_state\<lparr>step_name := ''middle''\<rparr>)"
    by (simp add: example_host_def example_state_def)
  from en en' a b show ?thesis by blast
qed

subsection \<open>What a fetch-at-exec step records\<close>



subsection \<open>What the file system calls change\<close>

lemma mkdtemp_loop_Some:
  "mkdtemp_loop h d f seq k = Some (p, seq') \<Longrightarrow>
   f p = None \<and> (\<exists>n. p = os_path_join d [''tmp'' @ mkdtemp_names h n])"
  by (induction k arbitrary: seq) (auto simp add: Let_def split: if_splits)

lemma tempfile_mkdtemp_Inr:
  assumes "tempfile_mkdtemp h d st = Inr (p, st')"
  shows "fs st p = None" and "\<exists>n. p = os_path_join d [''tmp'' @ mkdtemp_names h n]"
    and "\<exists>seq'. st' = st\<lparr>fs := (fs st)(p \<mapsto> Dir), tmp_seq := seq'\<rparr>"
  using assms mkdtemp_loop_Some [of h d "fs st" "tmp_seq st" TMP_MAX]
  by (auto simp add: tempfile_mkdtemp_def split: option.splits)

lemma tempfile_mkdtemp_Inl:
  "tempfile_mkdtemp h d st = Inl (e, st') \<Longrightarrow> \<exists>seq'. st' = st\<lparr>tmp_seq := seq'\<rparr>"
  by (auto simp add: tempfile_mkdtemp_def split: option.splits)


lemma namespace_or_single:
  "\<not> (\<exists>p. ps = [p]) \<Longrightarrow> (case ps of [p] \<Rightarrow> a p | _ \<Rightarrow> b) = b"
  by (simp split: list.split)

subsection \<open>The fetch-at-exec branches are never taken\<close>

lemma and_then_env_for_fetch:
  assumes "env_for_fetch (final m) = X"
    and "\<And>s. m = Inr s \<Longrightarrow> env_for_fetch (final (f s)) = env_for_fetch s"
  shows "env_for_fetch (final (and_then m f)) = X"
proof (cases m)
  case (Inl a)
  with assms(1) show ?thesis by (cases a) (simp add: and_then_def)
next
  case (Inr s)
  with assms show ?thesis by (simp add: and_then_def)
qed

lemma os_symlink_env_for_fetch:
  "env_for_fetch (final (os_symlink src dst st)) = env_for_fetch st"
  by (simp add: os_symlink_def)

lemma link_namespace_env_for_fetch:
  "env_for_fetch (final (link_namespace h home ps st)) = env_for_fetch st"
proof (induction ps arbitrary: st)
  case Nil
  show ?case by simp
next
  case (Cons p ps)
  show ?case
  proof (cases "tempfile_mkdtemp h home st")
    case (Inl a)
    then show ?thesis
      by (cases a) (auto dest: tempfile_mkdtemp_Inl)
  next
    case (Inr b)
    obtain temp_dir st1 where b: "b = (temp_dir, st1)" by (cases b)
    from tempfile_mkdtemp_Inr(3) [OF Inr [unfolded b]]
    have e1: "env_for_fetch st1 = env_for_fetch st" by auto
    have "env_for_fetch (final (and_then (os_symlink p (os_path_join temp_dir [EXT_PKG]) st1)
            (\<lambda>st2. link_namespace h home ps
                      (st2\<lparr>addl_paths :=
                             Some ((case addl_paths st2 of None \<Rightarrow> [] | Some l \<Rightarrow> l)
                                   @ [temp_dir])\<rparr>))))
          = env_for_fetch st"
      by (rule and_then_env_for_fetch) (simp_all add: os_symlink_env_for_fetch e1 Cons.IH)
    with Inr b show ?thesis by simp
  qed
qed

lemma link_EXT_PKG_env_for_fetch:
  "env_for_fetch (final (link_EXT_PKG h home st)) = env_for_fetch st"
proof (cases "import_EXT_PKG h")
  case None
  then show ?thesis by (simp add: link_EXT_PKG_def)
next
  case (Some path)
  show ?thesis
  proof (cases "\<exists>p. remdups path = [p]")
    case True
    with Some show ?thesis
      by (auto simp add: link_EXT_PKG_def os_symlink_env_for_fetch)
  next
    case False
    with Some show ?thesis
      by (simp add: link_EXT_PKG_def namespace_or_single link_namespace_env_for_fetch)
  qed
qed

lemma trampolines_fold_frame:
  "env_for_fetch (foldl (\<lambda>s (m, text'). write_text (os_path_join d [m @ ''.py'']) text' s) st ms)
     = env_for_fetch st
   \<and> metaflow_home (foldl (\<lambda>s (m, text'). write_text (os_path_join d [m @ ''.py'']) text' s) st ms)
     = metaflow_home st"
  by (induction ms arbitrary: st) (auto simp add: write_text_def)

lemma runtime_init_env_for_fetch:
  "env_for_fetch (final (runtime_init h run_id st)) = env_for_fetch st"
proof (cases "tempfile_mkdtemp h ''/tmp'' st")
  case (Inl a)
  then show ?thesis
    by (cases a) (auto simp add: runtime_init_def dest: tempfile_mkdtemp_Inl)
next
  case (Inr b)
  obtain home st0 where b: "b = (home, st0)" by (cases b)
  from tempfile_mkdtemp_Inr(3) [OF Inr [unfolded b]]
  have e0: "env_for_fetch st0 = env_for_fetch st" by auto
  have trampolines: "env_for_fetch (final
          (let st4 = generate_trampolines h home s3
           in Inr (if is_enabled h st4 None \<and> is_fetch_at_exec st4 None
                   then runtime_init_fetch run_id st4
                   else st4))) = env_for_fetch s3" for s3
    by (simp add: is_fetch_at_exec_def generate_trampolines_def trampolines_fold_frame)
  have ext: "env_for_fetch (final
          (and_then (link_EXT_PKG h home s2)
             (\<lambda>st3.
                let st4 = generate_trampolines h home st3
                in Inr (if is_enabled h st4 None \<and> is_fetch_at_exec st4 None
                        then runtime_init_fetch run_id st4
                        else st4)))) = env_for_fetch s2" for s2
    by (rule and_then_env_for_fetch) (rule link_EXT_PKG_env_for_fetch, rule trampolines)
  have info: "env_for_fetch (final
          (and_then
             (if os_path_isfile (fs s1) (os_path_join (get_metaflow_root h) [''INFO''])
              then os_symlink (os_path_join (get_metaflow_root h) [''INFO''])
                     (os_path_join home [''INFO'']) s1
              else Inr (write_text (os_path_join home [''INFO''])
                          (get_environment_info_json h) s1))
             (\<lambda>st2.
                and_then (link_EXT_PKG h home st2)
                  (\<lambda>st3.
                     let st4 = generate_trampolines h home st3
                     in Inr (if is_enabled h st4 None \<and> is_fetch_at_exec st4 None
                             then runtime_init_fetch run_id st4
                             else st4))))) = env_for_fetch s1" for s1
    by (rule and_then_env_for_fetch)
      (simp add: os_symlink_env_for_fetch write_text_def, rule ext)
  have "env_for_fetch (final
          (and_then
               (os_symlink (os_path_join (get_metaflow_root h) [''metaflow''])
                  (os_path_join home [''metaflow''])
                  (st0\<lparr>metaflow_home := Some home, addl_paths := None\<rparr>))
               (\<lambda>st1.
                  and_then
                    (if os_path_isfile (fs st1) (os_path_join (get_metaflow_root h) [''INFO''])
                     then os_symlink (os_path_join (get_metaflow_root h) [''INFO''])
                            (os_path_join home [''INFO'']) st1
                     else Inr (write_text (os_path_join home [''INFO''])
                                 (get_environment_info_json h) st1))
                    (\<lambda>st2.
                       and_then (link_EXT_PKG h home st2)
                         (\<lambda>st3.
                            let st4 = generate_trampolines h home st3
                            in Inr (if is_enabled h st4 None \<and> is_fetch_at_exec st4 None
                                    then runtime_init_fetch run_id st4
                                    else st4))))))
        = env_for_fetch st"
    by (rule and_then_env_for_fetch) (simp add: os_symlink_env_for_fetch e0, rule info)
  with Inr b show ?thesis
    by (simp add: runtime_init_def Let_def)
qed

text \<open>
  C8. \<open>_is_fetch_at_exec\<close> is false for every argument. So \<open>runtime_init\<close>, however
  it ends, leaves \<open>self._env_for_fetch\<close> as it found it, and
  \<open>runtime_task_created\<close> for an enabled task is the \<open>get_env_id_noconda\<close> branch
  and nothing else.
\<close>

theorem fetch_at_exec_unreachable:
  "is_fetch_at_exec st ubf_context = False
   \<and> env_for_fetch (final (runtime_init h run_id st)) = env_for_fetch st
   \<and> runtime_task_created h task_id input_paths ubf_context st =
       (if is_enabled h st ubf_context then runtime_task_created_noconda h st else Inr st)"
  by (simp add: is_fetch_at_exec_def runtime_init_env_for_fetch runtime_task_created_def)

theorem fetch_at_exec_unreachable_witness:
  "env_for_fetch (final (runtime_init example_host ''12'' example_state)) ''METAFLOW_RUN_ID'' = None
   \<and> runtime_task_created example_host ''9'' [''12/start/7''] None example_state =
       runtime_task_created_noconda example_host example_state"
proof -
  have en: "is_enabled example_host example_state None"
    by (simp add: example_defs is_enabled_def)
  from fetch_at_exec_unreachable [of example_state None example_host "''12''" "''9''"
      "[''12/start/7'']"] en
  show ?thesis
    by (simp add: example_state_def)
qed

subsection \<open>The temporary metaflow home\<close>











end
